theory Spec2Isabelle
  imports Complex_Main "HOL-Library.Product_Lexorder"
begin

section \<open>Data model of the news database\<close>

text \<open>
  \<^verbatim>\<open>logs_analysis.py\<close> reads three tables of the database \<^verbatim>\<open>news\<close>:
  \<^verbatim>\<open>log(path, status, time)\<close>, \<^verbatim>\<open>articles(slug, title, author)\<close> and
  \<^verbatim>\<open>authors(id, name)\<close>. A table is the list of its rows. Columns are taken to be
  non-null. A timestamp carries the calendar fields that \<^verbatim>\<open>date_trunc\<close> and
  \<^verbatim>\<open>strftime\<close> look at; fractions of a second and the time zone are left out.
\<close>

datatype month =
  January | February | March | April | May | June |
  July | August | September | October | November | December

record timestamp =
  year :: nat
  month :: month
  day :: nat
  hour :: nat
  minute :: nat
  second :: nat

record log_row =
  path :: string
  status :: string
  time :: timestamp

record article_row =
  slug :: string
  title :: string
  author :: nat

record author_row =
  id_col :: nat
  name :: string

record tables =
  log_table :: "log_row list"
  articles :: "article_row list"
  authors :: "author_row list"

fun month_number :: "month \<Rightarrow> nat" where
  "month_number January = 1"
| "month_number February = 2"
| "month_number March = 3"
| "month_number April = 4"
| "month_number May = 5"
| "month_number June = 6"
| "month_number July = 7"
| "month_number August = 8"
| "month_number September = 9"
| "month_number October = 10"
| "month_number November = 11"
| "month_number December = 12"

text \<open>Timestamps are compared field by field, most significant first.\<close>

definition timestamp_key :: "timestamp \<Rightarrow> nat \<times> nat \<times> nat \<times> nat \<times> nat \<times> nat" where
  "timestamp_key t = (year t, month_number (month t), day t, hour t, minute t, second t)"

text \<open>\<^verbatim>\<open>date_trunc('day', time)\<close>: the same day at midnight.\<close>

definition date_trunc_day :: "timestamp \<Rightarrow> timestamp" where
  "date_trunc_day t = t\<lparr>hour := 0, minute := 0, second := 0\<rparr>"

section \<open>The SQL operators the queries use\<close>

text \<open>
  \<^verbatim>\<open>group by\<close>: the rows are read in order and each one is appended to the group of its
  key; a key not seen before opens a new group. Aggregates are then computed per group.
\<close>

fun add_to_group :: "'k \<Rightarrow> 'r \<Rightarrow> ('k \<times> 'r list) list \<Rightarrow> ('k \<times> 'r list) list" where
  "add_to_group k r [] = [(k, [r])]"
| "add_to_group k r ((k', rs) # gs) =
     (if k' = k then (k', rs @ [r]) # gs else (k', rs) # add_to_group k r gs)"

definition group_by :: "('r \<Rightarrow> 'k) \<Rightarrow> 'r list \<Rightarrow> ('k \<times> 'r list) list" where
  "group_by key rows = foldl (\<lambda>gs r. add_to_group (key r) r gs) [] rows"

text \<open>
  \<^verbatim>\<open>order by e\<close> and \<^verbatim>\<open>order by e desc\<close>. Rows with equal keys keep their input order
  (PostgreSQL leaves their order open; nothing below depends on it).
\<close>

definition order_by :: "('r \<Rightarrow> 'k::linorder) \<Rightarrow> 'r list \<Rightarrow> 'r list" where
  "order_by key rows = sort_key key rows"

definition order_by_desc :: "('r \<Rightarrow> 'k::linorder) \<Rightarrow> 'r list \<Rightarrow> 'r list" where
  "order_by_desc key rows = rev (sort_key key (rev rows))"

text \<open>\<^verbatim>\<open>limit n\<close>.\<close>

definition limit :: "nat \<Rightarrow> 'r list \<Rightarrow> 'r list" where
  "limit n rows = take n rows"

text \<open>\<^verbatim>\<open>count(e)\<close> counts the rows where \<^verbatim>\<open>e\<close> is not null; \<^verbatim>\<open>count(*)\<close> counts all.\<close>

definition count_non_null :: "'a option list \<Rightarrow> nat" where
  "count_non_null vs = length (filter (\<lambda>v. v \<noteq> None) vs)"

definition count_star :: "'r list \<Rightarrow> nat" where
  "count_star rows = length rows"

section \<open>The views\<close>

text \<open>
  \<^verbatim>\<open>most_viewed_paths\<close>:
  \<^verbatim>\<open>select path, count(*) as pv from log group by path order by pv desc\<close>.
\<close>

definition most_viewed_paths :: "tables \<Rightarrow> (string \<times> nat) list" where
  "most_viewed_paths db =
     order_by_desc snd
       (map (\<lambda>(p, rows). (p, count_star rows)) (group_by path (log_table db)))"

text \<open>
  \<^verbatim>\<open>most_viewed_articles\<close>:
  \<^verbatim>\<open>select title, author as author_id, pv from articles, most_viewed_paths
  where concat('/article/', articles.slug) = most_viewed_paths.path order by pv desc\<close>.
  A row is (title, author\_id, pv).
\<close>

definition most_viewed_articles :: "tables \<Rightarrow> (string \<times> nat \<times> nat) list" where
  "most_viewed_articles db =
     order_by_desc (\<lambda>(t, a, pv). pv)
       [(title a, author a, snd p).
          a \<leftarrow> articles db, p \<leftarrow> most_viewed_paths db, ''/article/'' @ slug a = fst p]"

text \<open>
  \<^verbatim>\<open>daily_error_rates\<close>:
  \<^verbatim>\<open>select date_trunc('day', time) as date,
  100.0 * count(case when status = '404 NOT FOUND' then 1 end) / count(*) as error_rate
  from log group by date order by date\<close>.
  With no column \<^verbatim>\<open>date\<close> in \<^verbatim>\<open>log\<close>, \<^verbatim>\<open>group by date\<close> is by the output column.
  The \<^verbatim>\<open>case\<close> without \<^verbatim>\<open>else\<close> is null on every other status. \<^verbatim>\<open>100.0\<close> makes the
  quotient a \<^verbatim>\<open>numeric\<close>; it is taken exactly, as a rational (PostgreSQL keeps at least
  16 significant digits of it).
\<close>

definition case_404 :: "log_row \<Rightarrow> nat option" where
  "case_404 r = (if status r = ''404 NOT FOUND'' then Some 1 else None)"

definition error_rate :: "log_row list \<Rightarrow> rat" where
  "error_rate rows =
     100 * of_nat (count_non_null (map case_404 rows)) / of_nat (count_star rows)"

definition daily_error_rates :: "tables \<Rightarrow> (timestamp \<times> rat) list" where
  "daily_error_rates db =
     order_by (\<lambda>(d, e). timestamp_key d)
       (map (\<lambda>(d, rows). (d, error_rate rows))
          (group_by (\<lambda>r. date_trunc_day (time r)) (log_table db)))"

section \<open>The report queries\<close>

text \<open>
  The rows each of the three \<^verbatim>\<open>query_select_...\<close> texts denotes. A query that reads a
  view sees the view's rows in the view's own order (as PostgreSQL delivers them; the
  first query has no \<^verbatim>\<open>order by\<close> of its own and relies on it).

  \<^verbatim>\<open>query_select_three_most_viewed_articles\<close>:
  \<^verbatim>\<open>select title, pv from most_viewed_articles limit 3\<close>.
\<close>

definition three_most_viewed_articles :: "tables \<Rightarrow> (string \<times> nat) list" where
  "three_most_viewed_articles db =
     limit 3 (map (\<lambda>(t, a, pv). (t, pv)) (most_viewed_articles db))"

text \<open>
  \<^verbatim>\<open>query_select_most_viewed_authors\<close>:
  \<^verbatim>\<open>select name, sum(pv) as authors_total_pv from authors, most_viewed_articles
  where authors.id = most_viewed_articles.author_id
  group by name order by authors_total_pv desc\<close>.
\<close>

definition authors_join :: "tables \<Rightarrow> (author_row \<times> (string \<times> nat \<times> nat)) list" where
  "authors_join db =
     [(a, m). a \<leftarrow> authors db, m \<leftarrow> most_viewed_articles db, id_col a = fst (snd m)]"

definition most_viewed_authors :: "tables \<Rightarrow> (string \<times> nat) list" where
  "most_viewed_authors db =
     order_by_desc snd
       (map (\<lambda>(n, rows). (n, sum_list (map (\<lambda>(a, t, i, pv). pv) rows)))
          (group_by (\<lambda>(a, m). name a) (authors_join db)))"

text \<open>
  \<^verbatim>\<open>query_select_daily_error_rate_more_than_one_percent\<close>:
  \<^verbatim>\<open>select * from daily_error_rates where error_rate > 1.0 order by date\<close>.
\<close>

definition daily_error_rate_more_than_one_percent ::
  "tables \<Rightarrow> (timestamp \<times> rat) list" where
  "daily_error_rate_more_than_one_percent db =
     order_by (\<lambda>(d, e). timestamp_key d)
       (filter (\<lambda>(d, e). e > 1) (daily_error_rates db))"

section \<open>Text formatting\<close>

text \<open>\<^verbatim>\<open>str(n)\<close> of a non-negative integer: its decimal digits.\<close>

definition digit_char :: "nat \<Rightarrow> char" where
  "digit_char d = ''0123456789'' ! d"

fun str_nat :: "nat \<Rightarrow> string" where
  "str_nat n = (if n < 10 then [digit_char n] else str_nat (n div 10) @ [digit_char (n mod 10)])"

text \<open>
  \<^verbatim>\<open>round(x, 1)\<close> of a \<^verbatim>\<open>Decimal\<close> (what psycopg2 hands over for a \<^verbatim>\<open>numeric\<close>) keeps
  one decimal and, in Python 3, rounds a tie to the even digit; the result is held as
  its number of tenths. \<^verbatim>\<open>str\<close> of it writes the integer part, a point and the one
  decimal. A rate is never negative.
\<close>

definition round_half_even :: "rat \<Rightarrow> int" where
  "round_half_even x =
     (let f = \<lfloor>x\<rfloor>; d = x - of_int f
      in if d < 1 / 2 then f else if 1 / 2 < d then f + 1 else if even f then f else f + 1)"

definition round_1 :: "rat \<Rightarrow> int" where
  "round_1 x = round_half_even (10 * x)"

definition str_tenths :: "int \<Rightarrow> string" where
  "str_tenths q =
     (if q < 0 then ''-'' else '''') @ str_nat (nat \<bar>q\<bar> div 10) @ ''.'' @ str_nat (nat \<bar>q\<bar> mod 10)"

text \<open>
  \<^verbatim>\<open>strftime("%B %d, %Y")\<close>: the month's English name, the day in two digits, the year
  in decimal.
\<close>

fun month_name :: "month \<Rightarrow> string" where
  "month_name January = ''January''"
| "month_name February = ''February''"
| "month_name March = ''March''"
| "month_name April = ''April''"
| "month_name May = ''May''"
| "month_name June = ''June''"
| "month_name July = ''July''"
| "month_name August = ''August''"
| "month_name September = ''September''"
| "month_name October = ''October''"
| "month_name November = ''November''"
| "month_name December = ''December''"

definition two_digits :: "nat \<Rightarrow> string" where
  "two_digits d = (if d < 10 then ''0'' @ str_nat d else str_nat d)"

definition strftime_B_d_Y :: "timestamp \<Rightarrow> string" where
  "strftime_B_d_Y t = month_name (month t) @ '' '' @ two_digits (day t) @ '', '' @ str_nat (year t)"

text \<open>The line each \<^verbatim>\<open>for\<close> loop prints for one row.\<close>

definition article_line :: "string \<times> nat \<Rightarrow> string" where
  "article_line r =
     [CHR 0x22] @ fst r @ [CHR 0x22] @ '' --- '' @ str_nat (snd r) @ '' views''"

definition author_line :: "string \<times> nat \<Rightarrow> string" where
  "author_line r = fst r @ '' --- '' @ str_nat (snd r) @ '' views''"

definition rate_line :: "timestamp \<times> rat \<Rightarrow> string" where
  "rate_line r =
     strftime_B_d_Y (fst r) @ '' --- '' @ str_tenths (round_1 (snd r)) @ ''% errors''"

section \<open>Python objects and psycopg2\<close>

text \<open>
  The program talks to the database through psycopg2. A connection object has the
  methods \<^verbatim>\<open>cursor\<close>, \<^verbatim>\<open>commit\<close> and \<^verbatim>\<open>close\<close>; a cursor object has \<^verbatim>\<open>execute\<close> and
  \<^verbatim>\<open>fetchall\<close> (of the attributes of both classes only those the program names are
  modelled). Reading an attribute that is a method, without calling it, gives a bound
  method object; such an object has none of these attributes.
\<close>

datatype py_error = Psycopg2_Error | AttributeError | TypeError

datatype attribute = Attr_cursor | Attr_commit | Attr_close | Attr_execute | Attr_fetchall

datatype pyobj =
    Connection_object nat
  | Cursor_object nat
  | Bound_method pyobj attribute

datatype view_name = Most_viewed_paths | Most_viewed_articles | Daily_error_rates

datatype report =
  Three_most_viewed_articles | Most_viewed_authors | Daily_error_rate_more_than_one_percent

datatype statement = Create_or_replace_view view_name | Select report

datatype result_set =
    Count_rows "(string \<times> nat) list"
  | Rate_rows "(timestamp \<times> rat) list"

datatype pyval = None_value | Object pyobj | Fetched result_set

text \<open>The six SQL texts of the module, as the statements they are.\<close>

definition query_initialize_view_most_viewed_paths :: statement where
  "query_initialize_view_most_viewed_paths = Create_or_replace_view Most_viewed_paths"

definition query_initialize_view_most_viewed_articles :: statement where
  "query_initialize_view_most_viewed_articles = Create_or_replace_view Most_viewed_articles"

definition query_initialize_view_daily_error_rates :: statement where
  "query_initialize_view_daily_error_rates = Create_or_replace_view Daily_error_rates"

definition query_select_three_most_viewed_articles :: statement where
  "query_select_three_most_viewed_articles = Select Three_most_viewed_articles"

definition query_select_most_viewed_authors :: statement where
  "query_select_most_viewed_authors = Select Most_viewed_authors"

definition query_select_daily_error_rate_more_than_one_percent :: statement where
  "query_select_daily_error_rate_more_than_one_percent =
     Select Daily_error_rate_more_than_one_percent"

text \<open>The views a statement reads: they must exist when it is executed.\<close>

fun reads :: "statement \<Rightarrow> view_name set" where
  "reads (Create_or_replace_view Most_viewed_paths) = {}"
| "reads (Create_or_replace_view Most_viewed_articles) = {Most_viewed_paths}"
| "reads (Create_or_replace_view Daily_error_rates) = {}"
| "reads (Select Three_most_viewed_articles) = {Most_viewed_articles}"
| "reads (Select Most_viewed_authors) = {Most_viewed_articles}"
| "reads (Select Daily_error_rate_more_than_one_percent) = {Daily_error_rates}"

fun select_rows :: "report \<Rightarrow> tables \<Rightarrow> result_set" where
  "select_rows Three_most_viewed_articles db = Count_rows (three_most_viewed_articles db)"
| "select_rows Most_viewed_authors db = Count_rows (most_viewed_authors db)"
| "select_rows Daily_error_rate_more_than_one_percent db =
     Rate_rows (daily_error_rate_more_than_one_percent db)"

text \<open>
  The world the program runs in: one database server holding the database
  \<^verbatim>\<open>database_name\<close> with its tables and the views committed so far, the connections
  and cursors opened so far (an object is the index of its state), and standard output.
  A connection carries the views its open transaction has created and not yet
  committed: psycopg2 opens a transaction with the first statement, \<^verbatim>\<open>commit\<close> makes
  its work permanent, \<^verbatim>\<open>close\<close> discards it.
\<close>

record connection_state =
  closed :: bool
  pending :: "view_name set"

record cursor_state =
  connection_of :: nat
  results :: "result_set option"

record world =
  database_name :: string
  stored :: tables
  views :: "view_name set"
  connections :: "connection_state list"
  cursors :: "cursor_state list"
  stdout :: "string list"

type_synonym 'a py = "world \<Rightarrow> (py_error + 'a) \<times> world"

definition py_return :: "'a \<Rightarrow> 'a py" where
  "py_return x w = (Inr x, w)"

definition py_raise :: "py_error \<Rightarrow> 'a py" where
  "py_raise e w = (Inl e, w)"

text \<open>Sequencing: an exception ends the function and is passed to the caller.\<close>

definition py_bind :: "'a py \<Rightarrow> ('a \<Rightarrow> 'b py) \<Rightarrow> 'b py" where
  "py_bind m f w = (case m w of (Inl e, w') \<Rightarrow> (Inl e, w') | (Inr x, w') \<Rightarrow> f x w')"

text \<open>\<^verbatim>\<open>psycopg2.connect(database=db_name)\<close>.\<close>

definition psycopg2_connect :: "string \<Rightarrow> pyobj py" where
  "psycopg2_connect db_name w =
     (if db_name = database_name w
      then (Inr (Connection_object (length (connections w))),
            w\<lparr>connections := connections w @ [\<lparr>closed = False, pending = {}\<rparr>]\<rparr>)
      else (Inl Psycopg2_Error, w))"

text \<open>Attribute access \<^verbatim>\<open>obj.attr\<close>.\<close>

fun getattr :: "pyobj \<Rightarrow> attribute \<Rightarrow> pyobj py" where
  "getattr (Connection_object c) a =
     (if a \<in> {Attr_cursor, Attr_commit, Attr_close}
      then py_return (Bound_method (Connection_object c) a) else py_raise AttributeError)"
| "getattr (Cursor_object k) a =
     (if a \<in> {Attr_execute, Attr_fetchall}
      then py_return (Bound_method (Cursor_object k) a) else py_raise AttributeError)"
| "getattr (Bound_method obj m) a = py_raise AttributeError"

text \<open>\<^verbatim>\<open>conn.cursor()\<close>, called: a new cursor on the connection.\<close>

definition connection_cursor :: "nat \<Rightarrow> pyval py" where
  "connection_cursor c w =
     (if c < length (connections w) \<and> \<not> closed (connections w ! c)
      then (Inr (Object (Cursor_object (length (cursors w)))),
            w\<lparr>cursors := cursors w @ [\<lparr>connection_of = c, results = None\<rparr>]\<rparr>)
      else (Inl Psycopg2_Error, w))"

text \<open>
  \<^verbatim>\<open>cursor.execute(statement)\<close>: fails when the connection is closed or a view the
  statement reads does not exist; otherwise a \<^verbatim>\<open>create or replace view\<close> adds the view
  to the transaction and a \<^verbatim>\<open>select\<close> leaves its rows in the cursor.
\<close>

definition cursor_execute :: "nat \<Rightarrow> statement \<Rightarrow> pyval py" where
  "cursor_execute k q w =
     (if \<not> k < length (cursors w) then (Inl Psycopg2_Error, w)
      else let c = connection_of (cursors w ! k) in
        if \<not> c < length (connections w) \<or> closed (connections w ! c)
          \<or> \<not> reads q \<subseteq> views w \<union> pending (connections w ! c)
        then (Inl Psycopg2_Error, w)
        else (case q of
            Create_or_replace_view v \<Rightarrow>
              (Inr None_value,
               w\<lparr>connections := (connections w)
                    [c := (connections w ! c)\<lparr>pending := insert v (pending (connections w ! c))\<rparr>],
                 cursors := (cursors w)[k := (cursors w ! k)\<lparr>results := None\<rparr>]\<rparr>)
          | Select r \<Rightarrow>
              (Inr None_value,
               w\<lparr>cursors := (cursors w)
                    [k := (cursors w ! k)\<lparr>results := Some (select_rows r (stored w))\<rparr>]\<rparr>)))"

text \<open>\<^verbatim>\<open>cursor.fetchall()\<close>: the rows not fetched yet; an error when there is no result.\<close>

definition cursor_fetchall :: "nat \<Rightarrow> pyval py" where
  "cursor_fetchall k w =
     (if \<not> k < length (cursors w) then (Inl Psycopg2_Error, w)
      else let c = connection_of (cursors w ! k) in
        if \<not> c < length (connections w) \<or> closed (connections w ! c)
        then (Inl Psycopg2_Error, w)
        else (case results (cursors w ! k) of
            None \<Rightarrow> (Inl Psycopg2_Error, w)
          | Some (Count_rows rs) \<Rightarrow>
              (Inr (Fetched (Count_rows rs)),
               w\<lparr>cursors := (cursors w)[k := (cursors w ! k)\<lparr>results := Some (Count_rows [])\<rparr>]\<rparr>)
          | Some (Rate_rows rs) \<Rightarrow>
              (Inr (Fetched (Rate_rows rs)),
               w\<lparr>cursors := (cursors w)[k := (cursors w ! k)\<lparr>results := Some (Rate_rows [])\<rparr>]\<rparr>)))"

text \<open>\<^verbatim>\<open>conn.commit()\<close> and \<^verbatim>\<open>conn.close()\<close>.\<close>

definition connection_commit :: "nat \<Rightarrow> pyval py" where
  "connection_commit c w =
     (if c < length (connections w) \<and> \<not> closed (connections w ! c)
      then (Inr None_value,
            w\<lparr>views := views w \<union> pending (connections w ! c),
              connections := (connections w)[c := (connections w ! c)\<lparr>pending := {}\<rparr>]\<rparr>)
      else (Inl Psycopg2_Error, w))"

definition connection_close :: "nat \<Rightarrow> pyval py" where
  "connection_close c w =
     (if c < length (connections w)
      then (Inr None_value,
            w\<lparr>connections := (connections w)[c := \<lparr>closed = True, pending = {}\<rparr>]\<rparr>)
      else (Inl Psycopg2_Error, w))"

text \<open>Calling an object with the given arguments.\<close>

fun call :: "pyobj \<Rightarrow> statement list \<Rightarrow> pyval py" where
  "call (Bound_method (Connection_object c) Attr_cursor) [] = connection_cursor c"
| "call (Bound_method (Connection_object c) Attr_commit) [] = connection_commit c"
| "call (Bound_method (Connection_object c) Attr_close) [] = connection_close c"
| "call (Bound_method (Cursor_object k) Attr_execute) [q] = cursor_execute k q"
| "call (Bound_method (Cursor_object k) Attr_fetchall) [] = cursor_fetchall k"
| "call f args = py_raise TypeError"

text \<open>The method call \<^verbatim>\<open>obj.attr(args)\<close>: the attribute is looked up, then called.\<close>

definition call_method :: "pyobj \<Rightarrow> attribute \<Rightarrow> statement list \<Rightarrow> pyval py" where
  "call_method obj a args = py_bind (getattr obj a) (\<lambda>f. call f args)"

text \<open>\<^verbatim>\<open>print(line)\<close>.\<close>

definition print_py :: "string \<Rightarrow> unit py" where
  "print_py line w = (Inr (), w\<lparr>stdout := stdout w @ [line]\<rparr>)"

fun for_each :: "'a list \<Rightarrow> ('a \<Rightarrow> unit py) \<Rightarrow> unit py" where
  "for_each [] body = py_return ()"
| "for_each (x # xs) body = py_bind (body x) (\<lambda>u. for_each xs body)"

section \<open>The functions of the module\<close>

text \<open>
  \<^verbatim>\<open>connect\<close>: \<^verbatim>\<open>conn = psycopg2.connect(database=db_name)\<close>, \<^verbatim>\<open>cursor = conn.cursor\<close>,
  \<^verbatim>\<open>return conn, cursor\<close>. The attribute is read and not called. The \<^verbatim>\<open>except\<close>
  clause raises what it caught.
\<close>

definition connect :: "string \<Rightarrow> (pyobj \<times> pyobj) py" where
  "connect db_name =
     py_bind (psycopg2_connect db_name) (\<lambda>conn.
     py_bind (getattr conn Attr_cursor) (\<lambda>cursor.
     py_return (conn, cursor)))"

definition initialize_views :: "unit py" where
  "initialize_views =
     py_bind (connect ''news'') (\<lambda>(conn, cursor).
     py_bind (call_method cursor Attr_execute [query_initialize_view_most_viewed_paths]) (\<lambda>u.
     py_bind (call_method cursor Attr_execute [query_initialize_view_most_viewed_articles]) (\<lambda>u.
     py_bind (call_method cursor Attr_execute [query_initialize_view_daily_error_rates]) (\<lambda>u.
     py_bind (call_method conn Attr_commit []) (\<lambda>u.
     py_bind (call_method conn Attr_close []) (\<lambda>u.
     py_return ()))))))"

definition select_three_most_viewed_articles :: "pyval py" where
  "select_three_most_viewed_articles =
     py_bind (connect ''news'') (\<lambda>(conn, cursor).
     py_bind (call_method cursor Attr_execute [query_select_three_most_viewed_articles]) (\<lambda>u.
     py_bind (call_method cursor Attr_fetchall []) (\<lambda>result.
     py_bind (call_method conn Attr_close []) (\<lambda>u.
     py_return result))))"

definition select_most_viewed_authors :: "pyval py" where
  "select_most_viewed_authors =
     py_bind (connect ''news'') (\<lambda>(conn, cursor).
     py_bind (call_method cursor Attr_execute [query_select_most_viewed_authors]) (\<lambda>u.
     py_bind (call_method cursor Attr_fetchall []) (\<lambda>result.
     py_bind (call_method conn Attr_close []) (\<lambda>u.
     py_return result))))"

definition select_daily_error_rate_more_than_one_percent :: "pyval py" where
  "select_daily_error_rate_more_than_one_percent =
     py_bind (connect ''news'') (\<lambda>(conn, cursor).
     py_bind (call_method cursor Attr_execute
                [query_select_daily_error_rate_more_than_one_percent]) (\<lambda>u.
     py_bind (call_method cursor Attr_fetchall []) (\<lambda>result.
     py_bind (call_method conn Attr_close []) (\<lambda>u.
     py_return result))))"

text \<open>
  The three printing functions: the header, the rows of the query one line each, an
  empty line. A value that is not the row list of the query cannot be iterated as one.
\<close>

definition print_three_most_viewed_articles :: "unit py" where
  "print_three_most_viewed_articles =
     py_bind (print_py ''1. The most popular three articles of all time:'') (\<lambda>u.
     py_bind select_three_most_viewed_articles (\<lambda>fetched.
     py_bind (case fetched of
                Fetched (Count_rows rs) \<Rightarrow> for_each rs (\<lambda>r. print_py (article_line r))
              | _ \<Rightarrow> py_raise TypeError) (\<lambda>u.
     print_py [])))"

definition print_most_viewed_authors :: "unit py" where
  "print_most_viewed_authors =
     py_bind (print_py ''2. The most popular article authors of all time:'') (\<lambda>u.
     py_bind select_most_viewed_authors (\<lambda>fetched.
     py_bind (case fetched of
                Fetched (Count_rows rs) \<Rightarrow> for_each rs (\<lambda>r. print_py (author_line r))
              | _ \<Rightarrow> py_raise TypeError) (\<lambda>u.
     print_py [])))"

definition print_daily_error_rate_more_than_one_percent :: "unit py" where
  "print_daily_error_rate_more_than_one_percent =
     py_bind (print_py ''3. The dates when more than 1% of requests lead to errors:'') (\<lambda>u.
     py_bind select_daily_error_rate_more_than_one_percent (\<lambda>fetched.
     py_bind (case fetched of
                Fetched (Rate_rows rs) \<Rightarrow> for_each rs (\<lambda>r. print_py (rate_line r))
              | _ \<Rightarrow> py_raise TypeError) (\<lambda>u.
     print_py [])))"

text \<open>The script: create or replace the views, then print the three reports.\<close>

definition main :: "unit py" where
  "main =
     py_bind initialize_views (\<lambda>u.
     py_bind print_three_most_viewed_articles (\<lambda>u.
     py_bind print_most_viewed_authors (\<lambda>u.
     print_daily_error_rate_more_than_one_percent)))"

section \<open>The specification's words\<close>

text \<open>Sorted by a count, descending; and strictly so.\<close>

definition descending :: "nat list \<Rightarrow> bool" where
  "descending ns = sorted_wrt (\<lambda>m n. n \<le> m) ns"

definition strictly_descending :: "nat list \<Rightarrow> bool" where
  "strictly_descending ns = sorted_wrt (\<lambda>m n. n < m) ns"





text \<open>
  The sum of view\_count over exactly one author's articles appearing in
  MostViewedArticles, and the sum of these over the authors bearing one name.
\<close>

definition total_views_of_author :: "tables \<Rightarrow> author_row \<Rightarrow> nat" where
  "total_views_of_author db a =
     sum_list (map (\<lambda>(t, i, pv). pv)
       (filter (\<lambda>(t, i, pv). i = id_col a) (most_viewed_articles db)))"

definition total_views_of_name :: "tables \<Rightarrow> string \<Rightarrow> nat" where
  "total_views_of_name db n =
     sum_list (map (total_views_of_author db) (filter (\<lambda>a. name a = n) (authors db)))"

section \<open>Sample databases\<close>

definition july_17 :: timestamp where
  "july_17 = \<lparr>year = 2016, month = July, day = 17, hour = 0, minute = 0, second = 0\<rparr>"

definition hit :: "string \<Rightarrow> string \<Rightarrow> nat \<Rightarrow> log_row" where
  "hit p s h = \<lparr>path = p, status = s, time = july_17\<lparr>hour := h\<rparr>\<rparr>"

text \<open>
  The specification's example: one article with slug \<^verbatim>\<open>a\<close> and title \<^verbatim>\<open>Foo\<close>; on one
  date five requests of it answered \<^verbatim>\<open>200 OK\<close> and one answered \<^verbatim>\<open>404 NOT FOUND\<close>.
\<close>

definition example_tables :: tables where
  "example_tables =
     \<lparr>log_table =
        [hit ''/article/a'' ''200 OK'' 1, hit ''/article/a'' ''200 OK'' 2,
         hit ''/article/a'' ''200 OK'' 3, hit ''/article/a'' ''404 NOT FOUND'' 4,
         hit ''/article/a'' ''200 OK'' 5, hit ''/article/a'' ''200 OK'' 6],
      articles = [\<lparr>slug = ''a'', title = ''Foo'', author = 1\<rparr>],
      authors = [\<lparr>id_col = 1, name = ''Ann''\<rparr>]\<rparr>"

text \<open>Two articles that were requested once each.\<close>

definition tie_tables :: tables where
  "tie_tables =
     \<lparr>log_table = [hit ''/article/a'' ''200 OK'' 1, hit ''/article/b'' ''200 OK'' 2],
      articles = [\<lparr>slug = ''a'', title = ''Foo'', author = 1\<rparr>,
                  \<lparr>slug = ''b'', title = ''Bar'', author = 1\<rparr>],
      authors = [\<lparr>id_col = 1, name = ''Ann''\<rparr>]\<rparr>"

text \<open>Two authors of the same name, with one article each, requested twice and thrice.\<close>

definition namesake_tables :: tables where
  "namesake_tables =
     \<lparr>log_table =
        [hit ''/article/a'' ''200 OK'' 1, hit ''/article/a'' ''200 OK'' 2,
         hit ''/article/b'' ''200 OK'' 3, hit ''/article/b'' ''200 OK'' 4,
         hit ''/article/b'' ''200 OK'' 5],
      articles = [\<lparr>slug = ''a'', title = ''Foo'', author = 1\<rparr>,
                  \<lparr>slug = ''b'', title = ''Bar'', author = 2\<rparr>],
      authors = [\<lparr>id_col = 1, name = ''Ann''\<rparr>, \<lparr>id_col = 2, name = ''Ann''\<rparr>]\<rparr>"

text \<open>
  A server with the database \<^verbatim>\<open>news\<close> holding the example's tables, before and after
  the three views have been created.
\<close>

definition news_world :: world where
  "news_world =
     \<lparr>database_name = ''news'', stored = example_tables, views = {},
      connections = [], cursors = [], stdout = []\<rparr>"

definition news_world_with_views :: world where
  "news_world_with_views =
     news_world\<lparr>views := {Most_viewed_paths, Most_viewed_articles, Daily_error_rates}\<rparr>"

section \<open>Grouping and ordering\<close>

lemma fst_add_to_group:
  "map fst (add_to_group k r gs) = (if k \<in> fst ` set gs then map fst gs else map fst gs @ [k])"
  by (induction gs) (fastforce+)

lemma map_of_add_to_group:
  "map_of (add_to_group k r gs) k' =
     (if k' = k then Some ((case map_of gs k of None \<Rightarrow> [] | Some rs \<Rightarrow> rs) @ [r])
      else map_of gs k')"
  by (induction gs) auto

lemma group_by_snoc:
  "group_by key (rows @ [r]) = add_to_group (key r) r (group_by key rows)"
  by (simp add: group_by_def)

lemma group_by_keys:
  "distinct (map fst (group_by key rows)) \<and> fst ` set (group_by key rows) = key ` set rows"
proof (induction rows rule: rev_induct)
  case Nil
  show ?case by (simp add: group_by_def)
next
  case (snoc r rows)
  then show ?case
    by (auto simp: group_by_snoc fst_add_to_group simp flip: set_map)
qed

lemma map_of_group_by:
  "map_of (group_by key rows) k =
     (if k \<in> key ` set rows then Some (filter (\<lambda>r. key r = k) rows) else None)"
proof (induction rows rule: rev_induct)
  case Nil
  show ?case by (simp add: group_by_def)
next
  case (snoc r rows)
  have none: "filter (\<lambda>x. key x = key r) rows = []" if "key r \<notin> key ` set rows"
  proof -
    have "\<forall>x \<in> set rows. key x \<noteq> key r"
      using that by (metis imageI)
    then show ?thesis by (simp add: filter_empty_conv)
  qed
  show ?case
  proof (cases "k = key r")
    case True
    with snoc none show ?thesis
      by (simp add: group_by_snoc map_of_add_to_group)
  next
    case False
    with snoc show ?thesis
      by (simp add: group_by_snoc map_of_add_to_group)
  qed
qed

lemma group_by_rows:
  "(k, rs) \<in> set (group_by key rows) \<longleftrightarrow> k \<in> key ` set rows \<and> rs = filter (\<lambda>r. key r = k) rows"
proof -
  have "distinct (map fst (group_by key rows))"
    using group_by_keys [of key rows] by simp
  then have "(k, rs) \<in> set (group_by key rows) \<longleftrightarrow> map_of (group_by key rows) k = Some rs"
    by simp
  then show ?thesis
    by (auto simp: map_of_group_by)
qed

lemma sorted_order_by_desc: "sorted_wrt (\<lambda>x y. key x \<ge> key y) (order_by_desc key rows)"
  unfolding order_by_desc_def
  using sorted_sort_key[of key "rev rows"]
  by (simp add: sorted_wrt_rev sorted_map)

lemma set_order_by_desc: "set (order_by_desc key rows) = set rows"
  by (simp add: order_by_desc_def)

subsection \<open>The rows of the view of daily error rates\<close>





lemma distinct_map_insort_key:
  "distinct (map f (insort_key k x xs)) = (f x \<notin> f ` set xs \<and> distinct (map f xs))"
  by (induction xs) (auto simp: set_insort_key)

lemma distinct_map_sort_key: "distinct (map f (sort_key k xs)) = distinct (map f xs)"
  by (induction xs) (simp_all add: distinct_map_insort_key)





section \<open>The three most viewed articles\<close>

text \<open>
  C1, as amended. For every database, the query of \<^verbatim>\<open>select_three_most_viewed_articles\<close>
  yields at most three rows, and their view counts never increase from one row to the
  next; equal counts may follow each other.
\<close>

theorem three_most_viewed_articles_descending:
  "length (three_most_viewed_articles db) \<le> 3 \<and>
   descending (map snd (three_most_viewed_articles db))"
proof -
  have "sorted_wrt (\<lambda>x y. (case y of (t, a, pv) \<Rightarrow> pv) \<le> (case x of (t, a, pv) \<Rightarrow> pv))
          (most_viewed_articles db)"
    unfolding most_viewed_articles_def by (rule sorted_order_by_desc)
  then have "sorted_wrt (\<lambda>m n. n \<le> m)
      (map snd (map (\<lambda>(t, a, pv). (t, pv)) (most_viewed_articles db)))"
    by (simp add: sorted_wrt_map case_prod_unfold)
  then have "sorted_wrt (\<lambda>m n. n \<le> m)
      (take 3 (map snd (map (\<lambda>(t, a, pv). (t, pv)) (most_viewed_articles db))))"
    by (rule sorted_wrt_take)
  then show ?thesis
    by (simp add: three_most_viewed_articles_def limit_def descending_def take_map)
qed

text \<open>
  C1 as stated asks for strictly descending counts. Two articles requested once each
  are both returned, with the same count.
\<close>

theorem three_most_viewed_articles_tie:
  "\<not> (length (three_most_viewed_articles tie_tables) \<le> 3 \<and>
      strictly_descending (map snd (three_most_viewed_articles tie_tables)))"
  by code_simp

section \<open>Daily error rates\<close>








section \<open>Days with more than one percent of errors\<close>



section \<open>The most viewed authors\<close>

lemma distinct_map_order_by_desc:
  "distinct (map f (order_by_desc k xs)) = distinct (map f xs)"
  by (simp add: order_by_desc_def rev_map distinct_map_sort_key flip: rev_map)

lemma fst_aggregate: "map fst (map (\<lambda>(k, rows). (k, g rows)) gs) = map fst gs"
  by (induction gs) auto

lemma join_one_author:
  "sum_list (map (\<lambda>(a, t, i, pv). pv)
      (concat (map (\<lambda>m. if id_col a = fst (snd m) then [(a, m)] else []) ms))) =
   sum_list (map (\<lambda>(t, i, pv). pv) (filter (\<lambda>(t, i, pv). i = id_col a) ms))"
  by (induction ms) auto

lemma filter_join_one_author:
  "filter (\<lambda>(a', m). name a' = n)
      (concat (map (\<lambda>m. if id_col a = fst (snd m) then [(a, m)] else []) ms)) =
   (if name a = n then concat (map (\<lambda>m. if id_col a = fst (snd m) then [(a, m)] else []) ms)
    else [])"
  by (induction ms) auto

lemma join_total:
  "sum_list (map (\<lambda>(a, t, i, pv). pv)
      (filter (\<lambda>r. (case r of (a, m) \<Rightarrow> name a) = n) (authors_join db))) =
   total_views_of_name db n"
proof -
  have pred: "(\<lambda>r. (case r of (a, m) \<Rightarrow> name a) = n) = (\<lambda>(a, m). name a = n)"
    by (auto simp: fun_eq_iff)
  have author: "total_views_of_author db =
      (\<lambda>a. sum_list (map (\<lambda>(t, i, pv). pv)
             (filter (\<lambda>(t, i, pv). i = id_col a) (most_viewed_articles db))))"
    by (rule ext) (simp add: total_views_of_author_def)
  have "sum_list (map (\<lambda>(a, t, i, pv). pv) (filter (\<lambda>(a, m). name a = n)
          (concat (map (\<lambda>a. concat (map (\<lambda>m. if id_col a = fst (snd m) then [(a, m)] else []) ms)) as)))) =
        sum_list (map (\<lambda>a. sum_list (map (\<lambda>(t, i, pv). pv) (filter (\<lambda>(t, i, pv). i = id_col a) ms)))
          (filter (\<lambda>a. name a = n) as))" for as ms
    by (induction as) (simp_all add: filter_join_one_author join_one_author)
  then show ?thesis
    by (simp add: authors_join_def total_views_of_name_def author pred)
qed

lemma join_names:
  "(\<lambda>(a, m). name a) ` set (authors_join db) =
   {name a | a. a \<in> set (authors db) \<and> (\<exists>m \<in> set (most_viewed_articles db). fst (snd m) = id_col a)}"
  by (force simp: authors_join_def)

lemma most_viewed_authors_rows:
  "(n, tv) \<in> set (most_viewed_authors db) \<longleftrightarrow>
     n \<in> (\<lambda>(a, m). name a) ` set (authors_join db) \<and> tv = total_views_of_name db n"
proof -
  have "(n, tv) \<in> set (most_viewed_authors db) \<longleftrightarrow>
      (\<exists>rs. (n, rs) \<in> set (group_by (\<lambda>(a, m). name a) (authors_join db)) \<and>
         tv = sum_list (map (\<lambda>(a, t, i, pv). pv) rs))"
    by (auto simp: most_viewed_authors_def set_order_by_desc)
  then show ?thesis
    by (auto simp: group_by_rows join_total)
qed

lemma only_one_of_that_name:
  "distinct (map f xs) \<Longrightarrow> x \<in> set xs \<Longrightarrow> filter (\<lambda>y. f y = f x) xs = [x]"
proof (induction xs)
  case Nil
  then show ?case by simp
next
  case (Cons y ys)
  show ?case
  proof (cases "y = x")
    case True
    with Cons.prems have "\<forall>z \<in> set ys. f z \<noteq> f x"
      by (metis distinct.simps(2) imageI list.simps(9) set_map)
    with True show ?thesis
      by (simp add: filter_empty_conv)
  next
    case False
    with Cons show ?thesis
      by (auto simp: rev_image_eqI)
  qed
qed

text \<open>
  C5, as amended. The query of \<^verbatim>\<open>select_most_viewed_authors\<close> groups by the author's
  name. It yields one row for each name borne by an author with an article in
  \<^verbatim>\<open>most_viewed_articles\<close>, and the row's total is the sum of the view counts of the
  articles of all authors of that name. When no two authors share a name, the total
  reported for an author is the sum over exactly that author's articles. The rows are
  in descending order of the total, and none is cut off.
\<close>

theorem most_viewed_authors_totals:
  "distinct (map fst (most_viewed_authors db)) \<and>
   descending (map snd (most_viewed_authors db)) \<and>
   fst ` set (most_viewed_authors db) =
     {name a | a. a \<in> set (authors db) \<and>
        (\<exists>m \<in> set (most_viewed_articles db). fst (snd m) = id_col a)} \<and>
   (\<forall>(n, tv) \<in> set (most_viewed_authors db). tv = total_views_of_name db n) \<and>
   (distinct (map name (authors db)) \<longrightarrow>
      (\<forall>a \<in> set (authors db). \<forall>tv. (name a, tv) \<in> set (most_viewed_authors db) \<longrightarrow>
         tv = total_views_of_author db a))"
proof -
  have keys: "distinct (map fst (most_viewed_authors db))"
    using group_by_keys [of "\<lambda>(a, m). name a" "authors_join db"]
    by (simp only: most_viewed_authors_def distinct_map_order_by_desc fst_aggregate)
  have "sorted_wrt (\<lambda>x y. snd y \<le> snd x) (most_viewed_authors db)"
    unfolding most_viewed_authors_def by (rule sorted_order_by_desc)
  then have order: "descending (map snd (most_viewed_authors db))"
    by (simp add: descending_def sorted_wrt_map)
  have names: "fst ` set (most_viewed_authors db) = (\<lambda>(a, m). name a) ` set (authors_join db)"
  proof
    show "fst ` set (most_viewed_authors db) \<subseteq> (\<lambda>(a, m). name a) ` set (authors_join db)"
      using most_viewed_authors_rows [of _ _ db] by auto
    show "(\<lambda>(a, m). name a) ` set (authors_join db) \<subseteq> fst ` set (most_viewed_authors db)"
    proof
      fix n assume "n \<in> (\<lambda>(a, m). name a) ` set (authors_join db)"
      then have "(n, total_views_of_name db n) \<in> set (most_viewed_authors db)"
        by (simp only: most_viewed_authors_rows simp_thms)
      then show "n \<in> fst ` set (most_viewed_authors db)"
        by force
    qed
  qed
  have totals: "\<forall>(n, tv) \<in> set (most_viewed_authors db). tv = total_views_of_name db n"
    using most_viewed_authors_rows [of _ _ db] by auto
  have unique: "tv = total_views_of_author db a"
    if "distinct (map name (authors db))" and "a \<in> set (authors db)"
      and "(name a, tv) \<in> set (most_viewed_authors db)" for a tv
  proof -
    have "filter (\<lambda>a'. name a' = name a) (authors db) = [a]"
      using that(1,2) by (rule only_one_of_that_name)
    then have "total_views_of_name db (name a) = total_views_of_author db a"
      by (simp add: total_views_of_name_def)
    with that(3) show ?thesis
      by (simp add: most_viewed_authors_rows)
  qed
  from keys order names totals unique show ?thesis
    by (simp only: join_names) blast
qed

theorem most_viewed_authors_totals_witness:
  "distinct (map name (authors example_tables)) \<and>
   \<lparr>id_col = 1, name = ''Ann''\<rparr> \<in> set (authors example_tables) \<and>
   (''Ann'', 6) \<in> set (most_viewed_authors example_tables) \<and>
   total_views_of_name example_tables ''Ann'' = 6 \<and>
   total_views_of_author example_tables \<lparr>id_col = 1, name = ''Ann''\<rparr> = 6"
proof -
  have names: "distinct (map name (authors example_tables))"
    by code_simp
  have author: "\<lparr>id_col = 1, name = ''Ann''\<rparr> \<in> set (authors example_tables)"
    by code_simp
  have row: "(''Ann'', 6) \<in> set (most_viewed_authors example_tables)"
    by code_simp
  have "name \<lparr>id_col = 1, name = ''Ann''\<rparr> = ''Ann''"
    by simp
  with names author row show ?thesis
    using most_viewed_authors_totals [of example_tables] by fastforce
qed

text \<open>
  C5 as stated speaks of each author. Of two authors named Ann, the first has one
  article with 2 views; the row reported for Ann has 5, the views of both.
\<close>

theorem most_viewed_authors_namesakes:
  "\<lparr>id_col = 1, name = ''Ann''\<rparr> \<in> set (authors namesake_tables) \<and>
   (''Ann'', 5) \<in> set (most_viewed_authors namesake_tables) \<and>
   total_views_of_author namesake_tables \<lparr>id_col = 1, name = ''Ann''\<rparr> = 2"
  by code_simp

section \<open>What connect returns, and what follows\<close>

lemma connect_result:
  "connect db_name w =
     (if db_name = database_name w
      then (Inr (Connection_object (length (connections w)),
                 Bound_method (Connection_object (length (connections w))) Attr_cursor),
            w\<lparr>connections := connections w @ [\<lparr>closed = False, pending = {}\<rparr>]\<rparr>)
      else (Inl Psycopg2_Error, w))"
  by (simp add: connect_def psycopg2_connect_def py_bind_def py_return_def)

lemma call_method_on_method:
  "call_method (Bound_method obj m) a args w = (Inl AttributeError, w)"
  by (simp add: call_method_def py_bind_def py_raise_def)

lemma execute_after_connect:
  "py_bind (connect db_name) (\<lambda>(conn, cursor).
      py_bind (call_method cursor Attr_execute args) (rest conn cursor)) w =
   (if db_name = database_name w
    then (Inl AttributeError, w\<lparr>connections := connections w @ [\<lparr>closed = False, pending = {}\<rparr>]\<rparr>)
    else (Inl Psycopg2_Error, w))"
  by (simp add: py_bind_def connect_result call_method_on_method)

lemma initialize_views_result:
  "initialize_views w =
   (if ''news'' = database_name w
    then (Inl AttributeError, w\<lparr>connections := connections w @ [\<lparr>closed = False, pending = {}\<rparr>]\<rparr>)
    else (Inl Psycopg2_Error, w))"
  unfolding initialize_views_def by (simp only: execute_after_connect)

lemma select_results:
  "select_three_most_viewed_articles w =
   (if ''news'' = database_name w
    then (Inl AttributeError, w\<lparr>connections := connections w @ [\<lparr>closed = False, pending = {}\<rparr>]\<rparr>)
    else (Inl Psycopg2_Error, w))"
  "select_most_viewed_authors w =
   (if ''news'' = database_name w
    then (Inl AttributeError, w\<lparr>connections := connections w @ [\<lparr>closed = False, pending = {}\<rparr>]\<rparr>)
    else (Inl Psycopg2_Error, w))"
  "select_daily_error_rate_more_than_one_percent w =
   (if ''news'' = database_name w
    then (Inl AttributeError, w\<lparr>connections := connections w @ [\<lparr>closed = False, pending = {}\<rparr>]\<rparr>)
    else (Inl Psycopg2_Error, w))"
  unfolding select_three_most_viewed_articles_def select_most_viewed_authors_def
    select_daily_error_rate_more_than_one_percent_def
  by (simp_all only: execute_after_connect)

lemma execute_commits_nothing:
  "views (snd (cursor_execute k q w)) = views w \<and> stored (snd (cursor_execute k q w)) = stored w"
  by (simp add: cursor_execute_def Let_def split: statement.split)

text \<open>The lines the three loops would print for the rows of the example.\<close>

lemma report_lines_of_example:
  "map article_line (three_most_viewed_articles example_tables) =
     [[CHR 0x22] @ ''Foo'' @ [CHR 0x22] @ '' --- 6 views''] \<and>
   map author_line (most_viewed_authors example_tables) = [''Ann --- 6 views''] \<and>
   map rate_line (daily_error_rate_more_than_one_percent example_tables) =
     [''July 17, 2016 --- 16.7% errors'']"
  by code_simp

lemma main_raises:
  "fst (main news_world_with_views) = Inl AttributeError \<and>
   stdout (snd (main news_world_with_views)) = []"
  by (simp add: main_def py_bind_def initialize_views_result news_world_with_views_def news_world_def)

text \<open>
  C9. Whenever \<^verbatim>\<open>connect\<close> returns, which it does for the name of the server's
  database, it returns the connection and the connection's bound method \<^verbatim>\<open>cursor\<close>,
  not a cursor object: no cursor has been created. Looking up \<^verbatim>\<open>execute\<close> on that
  method object raises \<^verbatim>\<open>AttributeError\<close>, so each of the three query operations,
  once connected, ends there with the world as \<^verbatim>\<open>connect\<close> left it.
\<close>

theorem connect_returns_cursor_method:
  "(db_name = database_name w \<longrightarrow>
      fst (connect db_name w) =
        Inr (Connection_object (length (connections w)),
             Bound_method (Connection_object (length (connections w))) Attr_cursor)) \<and>
   (fst (connect db_name w) = Inr (conn, cursor) \<longrightarrow>
      cursor = Bound_method conn Attr_cursor \<and>
      (\<forall>k. cursor \<noteq> Cursor_object k) \<and>
      cursors (snd (connect db_name w)) = cursors w \<and>
      (\<forall>q w'. call_method cursor Attr_execute [q] w' = (Inl AttributeError, w'))) \<and>
   (database_name w = ''news'' \<longrightarrow>
      select_three_most_viewed_articles w = (Inl AttributeError, snd (connect ''news'' w)) \<and>
      select_most_viewed_authors w = (Inl AttributeError, snd (connect ''news'' w)) \<and>
      select_daily_error_rate_more_than_one_percent w =
        (Inl AttributeError, snd (connect ''news'' w)) \<and>
      cursors (snd (connect ''news'' w)) = cursors w)"
  by (auto simp: connect_result select_results call_method_on_method split: if_splits)

theorem connect_returns_cursor_method_witness:
  "''news'' = database_name news_world \<and>
   fst (connect ''news'' news_world) =
     Inr (Connection_object 0, Bound_method (Connection_object 0) Attr_cursor) \<and>
   call_method (Bound_method (Connection_object 0) Attr_cursor) Attr_execute
     [query_select_three_most_viewed_articles] news_world = (Inl AttributeError, news_world) \<and>
   fst (select_three_most_viewed_articles news_world) = Inl AttributeError"
proof -
  have name: "database_name news_world = ''news''"
    by (simp add: news_world_def)
  have none: "length (connections news_world) = 0"
    by (simp add: news_world_def)
  show ?thesis
    using connect_returns_cursor_method
      [of "''news''" news_world "Connection_object 0" "Bound_method (Connection_object 0) Attr_cursor"]
    by (simp add: name none)
qed

text \<open>
  C3 says each query operation executes its query, fetches and returns the rows and
  releases the connection. On a server that has the views, each of the three
  operations opens a connection and raises \<^verbatim>\<open>AttributeError\<close>: it returns no rows,
  creates no cursor, and leaves the connection open.
\<close>

theorem select_operations_raise:
  "select_three_most_viewed_articles news_world_with_views =
     (Inl AttributeError,
      news_world_with_views\<lparr>connections := [\<lparr>closed = False, pending = {}\<rparr>]\<rparr>) \<and>
   select_most_viewed_authors news_world_with_views =
     (Inl AttributeError,
      news_world_with_views\<lparr>connections := [\<lparr>closed = False, pending = {}\<rparr>]\<rparr>) \<and>
   select_daily_error_rate_more_than_one_percent news_world_with_views =
     (Inl AttributeError,
      news_world_with_views\<lparr>connections := [\<lparr>closed = False, pending = {}\<rparr>]\<rparr>)"
  by (simp add: select_results news_world_with_views_def news_world_def)

text \<open>
  C6 says the view initializer can be run twice without an error. It raises
  \<^verbatim>\<open>AttributeError\<close> whether or not the views exist, on the first run and on the
  second, and creates no view.
\<close>

theorem initialize_views_raises:
  "initialize_views news_world =
     (Inl AttributeError, news_world\<lparr>connections := [\<lparr>closed = False, pending = {}\<rparr>]\<rparr>) \<and>
   initialize_views news_world_with_views =
     (Inl AttributeError,
      news_world_with_views\<lparr>connections := [\<lparr>closed = False, pending = {}\<rparr>]\<rparr>) \<and>
   fst (initialize_views (snd (initialize_views news_world))) = Inl AttributeError \<and>
   views (snd (initialize_views (snd (initialize_views news_world)))) = {}"
  by (simp add: initialize_views_result news_world_with_views_def news_world_def)



text \<open>
  C8 says each report is its header, one line per row and an empty line. On a server
  that has the views, each printing function prints its header and then raises
  \<^verbatim>\<open>AttributeError\<close> inside its query operation: no row and no empty line follow.
\<close>

theorem reports_stop_after_header:
  "print_three_most_viewed_articles news_world_with_views =
     (Inl AttributeError,
      news_world_with_views
        \<lparr>connections := [\<lparr>closed = False, pending = {}\<rparr>],
         stdout := [''1. The most popular three articles of all time:'']\<rparr>) \<and>
   print_most_viewed_authors news_world_with_views =
     (Inl AttributeError,
      news_world_with_views
        \<lparr>connections := [\<lparr>closed = False, pending = {}\<rparr>],
         stdout := [''2. The most popular article authors of all time:'']\<rparr>) \<and>
   print_daily_error_rate_more_than_one_percent news_world_with_views =
     (Inl AttributeError,
      news_world_with_views
        \<lparr>connections := [\<lparr>closed = False, pending = {}\<rparr>],
         stdout := [''3. The dates when more than 1% of requests lead to errors:'']\<rparr>)"
  by (simp add: print_three_most_viewed_articles_def print_most_viewed_authors_def
      print_daily_error_rate_more_than_one_percent_def py_bind_def print_py_def
      select_results news_world_with_views_def news_world_def)

end
